theory Spec2Isabelle
  imports Main
begin

section \<open>JavaScript values\<close>

text \<open>
  The values that reach \<^verbatim>\<open>src/lib/api.js\<close>: the \<^verbatim>\<open>data\<close> argument of a request
  function, the ids read from it, the body a response parses to and the value a dispatch
  resolves to. Numbers are the integer-valued ones (an id is a row number), strings are
  ASCII, and an object is the list of its own properties in insertion order; only the value
  under each key matters here, not the order in which the language enumerates the keys.
\<close>

datatype jsval =
    JUndefined
  | JNull
  | JBool bool
  | JNum int
  | JStr string
  | JArr "jsval list"
  | JObj "(string \<times> jsval) list"

text \<open>ToBoolean: what \<^verbatim>\<open>if (x)\<close>, \<^verbatim>\<open>x && y\<close>, \<^verbatim>\<open>x || y\<close>, \<^verbatim>\<open>!x\<close> and \<^verbatim>\<open>x ? a : b\<close> test.\<close>

fun truthy :: "jsval \<Rightarrow> bool" where
  "truthy JUndefined = False"
| "truthy JNull = False"
| "truthy (JBool b) = b"
| "truthy (JNum n) = (n \<noteq> 0)"
| "truthy (JStr s) = (s \<noteq> [])"
| "truthy (JArr xs) = True"
| "truthy (JObj ps) = True"

text \<open>\<^verbatim>\<open>a || b\<close> on values.\<close>

definition js_or :: "jsval \<Rightarrow> jsval \<Rightarrow> jsval" where
  "js_or a b = (if truthy a then a else b)"

text \<open>
  \<^verbatim>\<open>a === b\<close>, for the primitive operands the source compares (a string, a boolean,
  \<^verbatim>\<open>undefined\<close>): equal type and equal value.
\<close>

definition strict_eq :: "jsval \<Rightarrow> jsval \<Rightarrow> bool" where
  "strict_eq a b = (a = b)"

text \<open>
  Reading a property by name. \<^verbatim>\<open>get_prop\<close> is \<^verbatim>\<open>v[k]\<close> for a value that is neither
  \<^verbatim>\<open>undefined\<close> nor \<^verbatim>\<open>null\<close> and a key (\<^verbatim>\<open>id\<close>, \<^verbatim>\<open>value\<close>) that no built-in prototype
  defines: an object answers with its own property, everything else with \<^verbatim>\<open>undefined\<close>.
  \<^verbatim>\<open>opt_prop\<close> is the optional chain \<^verbatim>\<open>v?.k\<close>, which also answers \<^verbatim>\<open>undefined\<close> when
  \<^verbatim>\<open>v\<close> is \<^verbatim>\<open>undefined\<close> or \<^verbatim>\<open>null\<close>.
\<close>

fun get_prop :: "jsval \<Rightarrow> string \<Rightarrow> jsval" where
  "get_prop (JObj ps) k = (case map_of ps k of Some v \<Rightarrow> v | None \<Rightarrow> JUndefined)"
| "get_prop v k = JUndefined"

definition opt_prop :: "jsval \<Rightarrow> string \<Rightarrow> jsval" where
  "opt_prop v k = (if v = JUndefined \<or> v = JNull then JUndefined else get_prop v k)"

subsection \<open>Conversion to strings\<close>

text \<open>The decimal digits of a natural number, most significant first.\<close>

definition digit_char :: "nat \<Rightarrow> char" where
  "digit_char d = ''0123456789'' ! d"

fun digit_string :: "nat \<Rightarrow> string" where
  "digit_string n =
     (if n < 10 then [digit_char n]
      else digit_string (n div 10) @ [digit_char (n mod 10)])"

declare digit_string.simps [simp del]

text \<open>Strings joined with a separator between neighbours.\<close>

fun join_strs :: "string \<Rightarrow> string list \<Rightarrow> string" where
  "join_strs sep [] = []"
| "join_strs sep [x] = x"
| "join_strs sep (x # y # ys) = x @ sep @ join_strs sep (y # ys)"

text \<open>
  ToString, as a template literal, a property key and \<^verbatim>\<open>Array.prototype.join\<close> apply it.
  An array prints as its elements joined by commas, where an element that is \<^verbatim>\<open>undefined\<close>
  or \<^verbatim>\<open>null\<close> prints as nothing; a plain object prints as \<^verbatim>\<open>[object Object]\<close>.
\<close>

fun js_toString :: "jsval \<Rightarrow> string" where
  "js_toString JUndefined = ''undefined''"
| "js_toString JNull = ''null''"
| "js_toString (JBool b) = (if b then ''true'' else ''false'')"
| "js_toString (JNum n) = (if n < 0 then ''-'' @ digit_string (nat (- n)) else digit_string (nat n))"
| "js_toString (JStr s) = s"
| "js_toString (JArr xs) =
     join_strs '',''
       (map (\<lambda>x. if x = JUndefined \<or> x = JNull then [] else js_toString x) xs)"
| "js_toString (JObj ps) = ''[object Object]''"

text \<open>\<^verbatim>\<open>xs.join(sep)\<close> on an array of values.\<close>

definition array_join :: "string \<Rightarrow> jsval list \<Rightarrow> string" where
  "array_join sep xs =
     join_strs sep (map (\<lambda>x. if x = JUndefined \<or> x = JNull then [] else js_toString x) xs)"

text \<open>\<^verbatim>\<open>s.toUpperCase()\<close> on an ASCII string.\<close>

definition upper_char :: "char \<Rightarrow> char" where
  "upper_char c =
     (case map_of (zip ''abcdefghijklmnopqrstuvwxyz'' ''ABCDEFGHIJKLMNOPQRSTUVWXYZ'') c of
        Some u \<Rightarrow> u
      | None \<Rightarrow> c)"

definition toUpperCase :: "string \<Rightarrow> string" where
  "toUpperCase s = map upper_char s"

section \<open>Requests, actions and what a call does\<close>

text \<open>
  \<^verbatim>\<open>fetch(url, options)\<close> as one record: the target, and the fields of \<^verbatim>\<open>options\<close>.
  \<^verbatim>\<open>req_body\<close> is \<^verbatim>\<open>None\<close> while \<^verbatim>\<open>options\<close> has no \<^verbatim>\<open>body\<close> property.
\<close>

record request =
  req_url :: string
  req_method :: jsval
  req_Authorization :: string
  req_json :: bool
  req_body :: "jsval option"

text \<open>
  The promise \<^verbatim>\<open>response.json()\<close> returns. The body is read and parsed after the call
  returns, so the promise is pending when it is handed on; it is a value of its own type,
  never the parsed body.
\<close>

datatype 'r promise = ResponseJson 'r

text \<open>
  What \<^verbatim>\<open>dispatch\<close> is given: the request-tracking action \<^verbatim>\<open>{ type, payload }\<close>, or the
  store action that the resource's update-action creator returns.
\<close>

datatype ('r, 'a) action =
    RequestAction string "'r promise"
  | UpdateAction 'a

datatype ('r, 'a) event =
    Fetch request
  | Dispatch "('r, 'a) action"

text \<open>
  How the promise of a request function can be rejected: by a \<^verbatim>\<open>throw\<close> statement of its
  body (both throw a string), by a TypeError of the language (destructuring \<^verbatim>\<open>undefined\<close>,
  calling what is not a function), or with the reason \<^verbatim>\<open>fetch\<close> or \<^verbatim>\<open>dispatch\<close> rejected
  with.
\<close>

datatype failure =
    Thrown string
  | TypeError
  | Rejected jsval

text \<open>
  A request function is \<^verbatim>\<open>async\<close>: it returns a promise, and the caller learns of an error
  as that promise's rejection. A run of it is the effects it had on the outside, in order,
  and how its promise settled (\<^verbatim>\<open>Inl\<close> rejected, \<^verbatim>\<open>Inr\<close> fulfilled).
\<close>

record ('r, 'a) run =
  events :: "('r, 'a) event list"
  settled :: "failure + jsval"

text \<open>
  What the module reads from its surroundings: \<^verbatim>\<open>localStorage.authToken\<close>, the built-in
  \<^verbatim>\<open>JSON.stringify\<close>, lodash's \<^verbatim>\<open>camelCase\<close>, the network (\<^verbatim>\<open>fetch\<close> answers with a
  rejection or a response of type \<^typ>\<open>'r\<close>) and \<^verbatim>\<open>fromStateMap\<close> of
  \<^verbatim>\<open>./stateToRedux\<close>, of which only the \<^verbatim>\<open>actions\<close> registry is used: a partial map from
  names to action creators.
\<close>

record ('r, 'a) world =
  authToken :: jsval
  stringify :: "jsval \<Rightarrow> jsval"
  camelCase :: "string \<Rightarrow> string"
  fetch :: "request \<Rightarrow> jsval + 'r"
  fromStateMap :: "(string \<times> jsval) list \<Rightarrow> string \<Rightarrow> (jsval \<Rightarrow> 'a) option"

text \<open>
  \<^verbatim>\<open>dispatch\<close> returns a promise: \<^verbatim>\<open>Inl\<close> the reason it is rejected with, \<^verbatim>\<open>Inr\<close> the
  value it resolves to. One call of a request function fetches once and dispatches at most
  twice, an action of each kind, so an answer that depends on the argument alone stands for
  any store and any network.
\<close>

type_synonym ('r, 'a) dispatch = "('r, 'a) action \<Rightarrow> jsval + jsval"

type_synonym ('r, 'a) ApiCall = "jsval \<Rightarrow> jsval \<Rightarrow> ('r, 'a) run"

subsection \<open>Objects as property lists; lodash's isArray and keyBy\<close>

text \<open>\<^verbatim>\<open>obj[k] = v\<close>: an existing property keeps its place, a new one goes last.\<close>

fun obj_set :: "'k \<Rightarrow> 'v \<Rightarrow> ('k \<times> 'v) list \<Rightarrow> ('k \<times> 'v) list" where
  "obj_set k v [] = [(k, v)]"
| "obj_set k v (p # ps) = (if fst p = k then (k, v) # ps else p # obj_set k v ps)"

text \<open>\<^verbatim>\<open>Object.keys(obj)\<close>.\<close>

definition object_keys :: "('k \<times> 'v) list \<Rightarrow> 'k list" where
  "object_keys ps = map fst ps"

fun isArray :: "jsval \<Rightarrow> bool" where
  "isArray (JArr xs) = True"
| "isArray v = False"

text \<open>
  \<^verbatim>\<open>keyBy(xs, k)\<close> on the elements of an array: each element is stored under the string
  of its property \<^verbatim>\<open>k\<close> (\<^verbatim>\<open>undefined\<close> for an element that has none), a later element
  replacing an earlier one with the same key.
\<close>

definition keyBy :: "jsval list \<Rightarrow> string \<Rightarrow> jsval" where
  "keyBy xs k = JObj (foldl (\<lambda>result x. obj_set (js_toString (opt_prop x k)) x result) [] xs)"

subsection \<open>requestFactory\<close>

text \<open>The two strings the body throws (lines 64 and 67 to 69).\<close>

definition post_with_id_message :: string where
  "post_with_id_message =
     ''can'' @ [CHR 0x27] @ ''t post with an id. Id creation is the responsibility of the backend''"

definition missing_id_message :: "string \<Rightarrow> jsval \<Rightarrow> string" where
  "missing_id_message resourceName method =
     ''missing id in call:'' @ [CHR 0x0A] @ ''       resource: '' @ resourceName @
     [CHR 0x0A] @ ''       method: '' @ js_toString method"

text \<open>
  Lines 62 to 80: what a request function does before its first \<^verbatim>\<open>await\<close>. It throws
  (\<^verbatim>\<open>Inl\<close>) or has the request ready (\<^verbatim>\<open>Inr\<close>). The guard of line 80 is written as the
  source has it: \<^verbatim>\<open>!method === "get"\<close> compares the boolean \<^verbatim>\<open>!method\<close> with a string.
\<close>

definition prepare ::
  "('r, 'a) world \<Rightarrow> string \<Rightarrow> string \<Rightarrow> jsval \<Rightarrow> jsval \<Rightarrow> string + request" where
  "prepare w baseURL resourceName method data =
     (let id = opt_prop data ''id'' in
      if strict_eq method (JStr ''post'') \<and> truthy id then Inl post_with_id_message
      else if method \<in> set [JStr ''patch'', JStr ''delete''] \<and> strict_eq id JUndefined
        then Inl (missing_id_message resourceName method)
      else
        let url = array_join ''/'' [JStr baseURL, JStr resourceName, js_or id (JStr [])];
            options = \<lparr> req_url = url, req_method = method,
                        req_Authorization = ''Bearer '' @ js_toString (authToken w),
                        req_json = True, req_body = None \<rparr>;
            body = stringify w data
        in Inr (if strict_eq (JBool (\<not> truthy method)) (JStr ''get'')
                then options \<lparr> req_body := Some body \<rparr> else options))"

text \<open>
  Lines 85 to 89, the callback of \<^verbatim>\<open>then\<close>: it takes \<^verbatim>\<open>value\<close> out of what the first
  dispatch resolved to, re-keys an array, and dispatches the resource's update action.
  \<^verbatim>\<open>sofar\<close> are the effects before it.
\<close>

definition commit ::
  "('r, 'a) world \<Rightarrow> (string \<Rightarrow> (jsval \<Rightarrow> 'a) option) \<Rightarrow> ('r, 'a) dispatch \<Rightarrow> string \<Rightarrow>
   ('r, 'a) event list \<Rightarrow> jsval \<Rightarrow> ('r, 'a) run" where
  "commit w actions dispatch resourceName sofar res =
     (if res = JUndefined \<or> res = JNull then \<lparr> events = sofar, settled = Inl TypeError \<rparr>
      else
        let value = get_prop res ''value'';
            value = (case value of JArr xs \<Rightarrow> keyBy xs ''id'' | _ \<Rightarrow> value);
            key = camelCase w (''update_'' @ resourceName)
        in case actions key of
             None \<Rightarrow> \<lparr> events = sofar, settled = Inl TypeError \<rparr>
           | Some creator \<Rightarrow>
               let u = UpdateAction (creator value)
               in \<lparr> events = sofar @ [Dispatch u], settled = map_sum Rejected id (dispatch u) \<rparr>)"

text \<open>
  The request function \<^verbatim>\<open>requestFactory(resourceName, method)\<close>, applied to \<^verbatim>\<open>data\<close> and
  \<^verbatim>\<open>userOptions\<close> (which the body never reads). \<^verbatim>\<open>baseURL\<close>, \<^verbatim>\<open>actions\<close> and \<^verbatim>\<open>dispatch\<close>
  are the variables of \<^verbatim>\<open>apiFactory\<close> it closes over. The argument of \<^verbatim>\<open>dispatch\<close> in
  line 82 is evaluated first, so \<^verbatim>\<open>await fetch(url, options)\<close> has returned a response, or
  has thrown, before \<^verbatim>\<open>dispatch\<close> is called.
\<close>

definition requestFactory ::
  "('r, 'a) world \<Rightarrow> string \<Rightarrow> (string \<Rightarrow> (jsval \<Rightarrow> 'a) option) \<Rightarrow> ('r, 'a) dispatch \<Rightarrow>
   string \<Rightarrow> jsval \<Rightarrow> ('r, 'a) ApiCall" where
  "requestFactory w baseURL actions dispatch resourceName method data userOptions =
     (case prepare w baseURL resourceName method data of
        Inl message \<Rightarrow> \<lparr> events = [], settled = Inl (Thrown message) \<rparr>
      | Inr req \<Rightarrow>
          (case fetch w req of
             Inl reason \<Rightarrow> \<lparr> events = [Fetch req], settled = Inl (Rejected reason) \<rparr>
           | Inr response \<Rightarrow>
               let a = RequestAction (toUpperCase (js_toString method @ ''_'' @ resourceName))
                         (ResponseJson response)
               in (case dispatch a of
                     Inl reason \<Rightarrow>
                       \<lparr> events = [Fetch req, Dispatch a], settled = Inl (Rejected reason) \<rparr>
                   | Inr res \<Rightarrow>
                       commit w actions dispatch resourceName [Fetch req, Dispatch a] res)))"

text \<open>
  How a call of a function ends for its caller: it throws, or it returns. Line 58 declares
  the request function \<^verbatim>\<open>async\<close>, and a call of an async function never throws: it returns
  a promise at once, and what its body throws, before the first \<^verbatim>\<open>await\<close> as well as after,
  rejects that promise. \<^verbatim>\<open>requestFactory\<close> above gives the run of that promise;
  \<^verbatim>\<open>async_call\<close> is the call as its caller sees it end.
\<close>

datatype 'p completion =
    Throws string
  | Returns 'p

definition async_call ::
  "('r, 'a) ApiCall \<Rightarrow> jsval \<Rightarrow> jsval \<Rightarrow> ('r, 'a) run completion" where
  "async_call f data userOptions = Returns (f data userOptions)"

section \<open>apiFactory\<close>

text \<open>The table of lines 45 to 51, an object literal: its properties in the order written.\<close>

definition methods :: "(string \<times> jsval) list" where
  "methods =
     [(''create'', JStr ''post''),
      (''read'', JStr ''get''),
      (''get'', JStr ''get''),
      (''update'', JStr ''patch''),
      (''delete'', JStr ''delete'')]"

text \<open>
  Modelled from the spec: \<^verbatim>\<open>crossProduct\<close> of \<^verbatim>\<open>./utils\<close> is not among the source files.
  Section 4.1 of the specification: given two ordered sequences A and B, produce an ordered
  sequence of all pairs (a, b) for a in A, b in B, preserving A-major, B-minor ordering;
  empty inputs yield an empty output.
\<close>

definition crossProduct :: "'x list \<Rightarrow> 'y list \<Rightarrow> ('x \<times> 'y) list" where
  "crossProduct A B = concat (map (\<lambda>a. map (\<lambda>b. (a, b)) B) A)"

text \<open>
  The API object: the properties of its own, one entry per resource, and the names of the
  members it inherits from its prototype. The accumulator of the reduction starts as the
  literal \<^verbatim>\<open>{}\<close>, which has no property of its own and the prototype
  \<^verbatim>\<open>Object.prototype\<close>. Every member of \<^verbatim>\<open>Object.prototype\<close> is a function, but for
  \<^verbatim>\<open>__proto__\<close>, which reads as the prototype itself: all are truthy.
\<close>

record 'f api_object =
  own :: "(string \<times> (string \<times> 'f) list) list"
  inherited :: "string list"

definition object_prototype_keys :: "string list" where
  "object_prototype_keys =
     [''constructor'', ''hasOwnProperty'', ''isPrototypeOf'', ''propertyIsEnumerable'',
      ''toLocaleString'', ''toString'', ''valueOf'', ''__proto__'',
      ''__defineGetter__'', ''__defineSetter__'', ''__lookupGetter__'', ''__lookupSetter__'']"

definition empty_object :: "'f api_object" where
  "empty_object = \<lparr> own = [], inherited = object_prototype_keys \<rparr>"

text \<open>
  Lines 5 to 10. \<^verbatim>\<open>obj[resource]\<close> reads the property of its own, an object and so truthy,
  and the method is stored in it. Without one it reads the inherited member, truthy too, and
  \<^verbatim>\<open>obj[resource][method] = func\<close> writes to that member: \<^verbatim>\<open>obj\<close> gets nothing of its
  own, and when the member is the prototype (\<^verbatim>\<open>__proto__\<close>) the method becomes one more
  inherited name. With neither, \<^verbatim>\<open>obj\<close> gets a new entry for the resource.
\<close>

definition toObject :: "'f api_object \<Rightarrow> string \<times> string \<times> 'f \<Rightarrow> 'f api_object" where
  "toObject obj t =
     (case t of (resource, method, func) \<Rightarrow>
        (case map_of (own obj) resource of
           Some entry \<Rightarrow> obj \<lparr> own := obj_set resource (obj_set method func entry) (own obj) \<rparr>
         | None \<Rightarrow>
             if resource \<in> set (inherited obj)
             then (if resource = ''__proto__''
                   then obj \<lparr> inherited := inherited obj @ [method] \<rparr> else obj)
             else obj \<lparr> own := obj_set resource [(method, func)] (own obj) \<rparr>))"

text \<open>Lines 43 to 115. \<^verbatim>\<open>reduce(toObject, {})\<close> is a left fold from the empty object.\<close>

definition apiFactory ::
  "('r, 'a) world \<Rightarrow> string \<Rightarrow> (string \<times> jsval) list \<Rightarrow> ('r, 'a) dispatch \<Rightarrow>
   ('r, 'a) ApiCall api_object" where
  "apiFactory w baseURL stateMap dispatch =
     (let actions = fromStateMap w stateMap;
          resourceNames = object_keys stateMap
      in foldl toObject empty_object
           (map (\<lambda>(resource, method).
                   (resource, method,
                    requestFactory w baseURL actions dispatch resource
                      (get_prop (JObj methods) method)))
              (crossProduct resourceNames (object_keys methods))))"

section \<open>A mocked surrounding\<close>

text \<open>
  A transport and a store to run the model against. A response is the value its body parses
  to. The transport answers a request for \<^verbatim>\<open>http://api/book/\<close> with two books, a request
  for \<^verbatim>\<open>http://api/book/5\<close> with one, any other request under \<^verbatim>\<open>http://api\<close> with
  \<^verbatim>\<open>null\<close>, and fails for every other host. The store resolves a request-tracking action
  to \<^verbatim>\<open>{ value }\<close> with the parsed body, as a promise middleware does, and an update action
  to the action itself. \<^verbatim>\<open>camelCase\<close> is lodash's on the one name used.
\<close>

definition book1 :: jsval where
  "book1 = JObj [(''id'', JNum 1), (''title'', JStr ''Emma'')]"

definition book2 :: jsval where
  "book2 = JObj [(''id'', JNum 2), (''title'', JStr ''Ulysses'')]"

definition book5 :: jsval where
  "book5 = JObj [(''id'', JNum 5), (''title'', JStr ''Dune'')]"

definition mock_fetch :: "request \<Rightarrow> jsval + jsval" where
  "mock_fetch req =
     (if req_url req = ''http://api/book/'' then Inr (JArr [book1, book2])
      else if req_url req = ''http://api/book/5'' then Inr book5
      else if take 11 (req_url req) = ''http://api/'' then Inr JNull
      else Inl (JStr ''Failed to fetch''))"

definition mock_world :: "(jsval, jsval) world" where
  "mock_world =
     \<lparr> authToken = JStr ''t0ken'',
       stringify = (\<lambda>v. JStr (js_toString v)),
       camelCase = (\<lambda>s. if s = ''update_book'' then ''updateBook'' else s),
       fetch = mock_fetch,
       fromStateMap =
         (\<lambda>stateMap name.
            if name = ''updateBook'' \<and> ''book'' \<in> set (object_keys stateMap)
            then Some (\<lambda>payload. JObj [(''type'', JStr ''UPDATE_BOOK''), (''payload'', payload)])
            else None) \<rparr>"

definition mock_dispatch :: "(jsval, jsval) dispatch" where
  "mock_dispatch a =
     (case a of
        RequestAction t p \<Rightarrow> (case p of ResponseJson parsed \<Rightarrow> Inr (JObj [(''value'', parsed)]))
      | UpdateAction u \<Rightarrow> Inr u)"

definition book_map :: "(string \<times> jsval) list" where
  "book_map = [(''book'', JObj [])]"

section \<open>Facts about the building blocks\<close>

subsection \<open>Validation and the request\<close>

lemma truthy_defined: "truthy v \<Longrightarrow> v \<noteq> JUndefined \<and> v \<noteq> JNull"
  by (cases v) simp_all

lemma url_join:
  "array_join ''/'' [JStr baseURL, JStr resourceName, js_or i (JStr [])] =
     baseURL @ ''/'' @ resourceName @ ''/'' @ (if truthy i then js_toString i else [])"
  using truthy_defined [of i] by (simp add: array_join_def js_or_def)

lemma body_guard: "\<not> strict_eq (JBool b) (JStr s)"
  by (simp add: strict_eq_def)

lemma prepare_eq:
  "prepare w baseURL resourceName method data =
     (if method = JStr ''post'' \<and> truthy (opt_prop data ''id'') then Inl post_with_id_message
      else if (method = JStr ''patch'' \<or> method = JStr ''delete'') \<and> opt_prop data ''id'' = JUndefined
        then Inl (missing_id_message resourceName method)
      else Inr \<lparr> req_url = baseURL @ ''/'' @ resourceName @ ''/'' @
                    (if truthy (opt_prop data ''id'') then js_toString (opt_prop data ''id'') else []),
                  req_method = method,
                  req_Authorization = ''Bearer '' @ js_toString (authToken w),
                  req_json = True, req_body = None \<rparr>)"
  unfolding prepare_def Let_def url_join by (simp add: body_guard) (simp add: strict_eq_def)

subsection \<open>Property lists and keyBy\<close>

lemma map_of_obj_set: "map_of (obj_set k v ps) = (map_of ps)(k \<mapsto> v)"
  by (induction ps) (auto simp: fun_eq_iff)

lemma keys_obj_set: "set (map fst (obj_set k v ps)) = insert k (set (map fst ps))"
  by (induction ps) auto

lemma distinct_obj_set: "distinct (map fst ps) \<Longrightarrow> distinct (map fst (obj_set k v ps))"
  by (induction ps) (auto simp: keys_obj_set [simplified])

lemma obj_set_fresh: "k \<notin> fst ` set ps \<Longrightarrow> obj_set k v ps = ps @ [(k, v)]"
  by (induction ps) auto

lemma obj_set_last: "k \<notin> fst ` set ps \<Longrightarrow> obj_set k v (ps @ [(k, u)]) = ps @ [(k, v)]"
  by (induction ps) auto


lemma map_of_last: "k \<notin> fst ` set ps \<Longrightarrow> map_of (ps @ [(k, v)]) k = Some v"
  by (induction ps) auto

lemma find_snoc:
  "List.find P (ys @ [x]) = (case List.find P ys of Some y \<Rightarrow> Some y | None \<Rightarrow> if P x then Some x else None)"
  by (induction ys) auto

lemma keyBy_fold_map_of:
  "map_of (foldl (\<lambda>result x. obj_set (key x) x result) acc xs) k =
     (case List.find (\<lambda>x. key x = k) (rev xs) of Some x \<Rightarrow> Some x | None \<Rightarrow> map_of acc k)"
proof (induction xs arbitrary: acc)
  case Nil
  show ?case by simp
next
  case (Cons x xs)
  have "map_of (foldl (\<lambda>result x. obj_set (key x) x result) acc (x # xs)) k =
      (case List.find (\<lambda>x. key x = k) (rev xs) of Some y \<Rightarrow> Some y
       | None \<Rightarrow> map_of (obj_set (key x) x acc) k)"
    using Cons.IH [of "obj_set (key x) x acc"] by simp
  also have "\<dots> = (case List.find (\<lambda>x. key x = k) (rev (x # xs)) of Some y \<Rightarrow> Some y | None \<Rightarrow> map_of acc k)"
    by (cases "List.find (\<lambda>x. key x = k) (rev xs)") (simp_all add: find_snoc map_of_obj_set)
  finally show ?case .
qed

lemma keyBy_fold_distinct:
  "distinct (map fst acc) \<Longrightarrow>
   distinct (map fst (foldl (\<lambda>result x. obj_set (key x) x result) acc xs))"
proof (induction xs arbitrary: acc)
  case Nil
  then show ?case by simp
next
  case (Cons x xs)
  then show ?case by (simp add: distinct_obj_set)
qed

lemma fold_obj_set_fresh:
  "distinct (map key xs) \<Longrightarrow> key ` set xs \<inter> fst ` set acc = {} \<Longrightarrow>
   foldl (\<lambda>result x. obj_set (key x) (val x) result) acc xs = acc @ map (\<lambda>x. (key x, val x)) xs"
proof (induction xs arbitrary: acc)
  case Nil
  show ?case by simp
next
  case (Cons x xs)
  have fresh: "key x \<notin> fst ` set acc"
    using Cons.prems(2) by auto
  have step: "obj_set (key x) (val x) acc = acc @ [(key x, val x)]"
    using fresh by (rule obj_set_fresh)
  have "key ` set xs \<inter> fst ` set (acc @ [(key x, val x)]) = {}"
    using Cons.prems by auto
  with Cons.prems(1) have
    "foldl (\<lambda>result x. obj_set (key x) (val x) result) (acc @ [(key x, val x)]) xs =
       (acc @ [(key x, val x)]) @ map (\<lambda>x. (key x, val x)) xs"
    by (intro Cons.IH) simp_all
  then show ?case by (simp add: step)
qed

subsection \<open>The reduction with toObject\<close>

lemma toObject_own:
  "map_of (own obj) r = Some e \<Longrightarrow>
   toObject obj (r, m, f) = obj \<lparr> own := obj_set r (obj_set m f e) (own obj) \<rparr>"
  by (simp add: toObject_def)

lemma toObject_inherited:
  assumes "r \<notin> fst ` set (own obj)" "r \<in> set (inherited obj)" "r \<noteq> ''__proto__''"
  shows "toObject obj (r, m, f) = obj"
proof -
  have "map_of (own obj) r = None"
    using assms(1) by (simp add: map_of_eq_None_iff)
  then show ?thesis
    unfolding toObject_def using assms(2,3) by simp
qed

lemma toObject_new:
  assumes "r \<notin> fst ` set (own obj)" "r \<notin> set (inherited obj)"
  shows "toObject obj (r, m, f) = obj \<lparr> own := own obj @ [(r, [(m, f)])] \<rparr>"
proof -
  have "map_of (own obj) r = None"
    using assms(1) by (simp add: map_of_eq_None_iff)
  then have "toObject obj (r, m, f) = obj \<lparr> own := obj_set r [(m, f)] (own obj) \<rparr>"
    unfolding toObject_def using assms(2) by simp
  then show ?thesis
    using assms(1) by (simp add: obj_set_fresh)
qed

text \<open>One resource's triples, folded into an object whose last entry is that resource's.\<close>

lemma fold_toObject_entry:
  "r \<notin> fst ` set pre \<Longrightarrow> own obj = pre @ [(r, e)] \<Longrightarrow>
   foldl toObject obj (map (\<lambda>m. (r, m, g m)) ms) =
     obj \<lparr> own := pre @ [(r, foldl (\<lambda>entry m. obj_set m (g m) entry) e ms)] \<rparr>"
proof (induction ms arbitrary: e obj)
  case Nil
  then show ?case by simp
next
  case (Cons m ms)
  have "map_of (own obj) r = Some e"
    unfolding Cons.prems(2) using Cons.prems(1) by (rule map_of_last)
  then have step: "toObject obj (r, m, g m) = obj \<lparr> own := pre @ [(r, obj_set m (g m) e)] \<rparr>"
    using Cons.prems by (simp add: toObject_own obj_set_last)
  have "foldl toObject (obj \<lparr> own := pre @ [(r, obj_set m (g m) e)] \<rparr>) (map (\<lambda>m. (r, m, g m)) ms) =
      obj \<lparr> own := pre @ [(r, obj_set m (g m) e)] \<rparr>
        \<lparr> own := pre @ [(r, foldl (\<lambda>entry m. obj_set m (g m) entry) (obj_set m (g m) e) ms)] \<rparr>"
    using Cons.prems(1) by (intro Cons.IH) simp_all
  then show ?case
    by (simp add: step)
qed

lemma fold_toObject_new:
  assumes "r \<notin> fst ` set (own obj)" "r \<notin> set (inherited obj)" "distinct ms" "ms \<noteq> []"
  shows "foldl toObject obj (map (\<lambda>m. (r, m, g m)) ms) =
     obj \<lparr> own := own obj @ [(r, map (\<lambda>m. (m, g m)) ms)] \<rparr>"
proof (cases ms)
  case Nil
  with assms show ?thesis by simp
next
  case (Cons m ms')
  let ?obj = "obj \<lparr> own := own obj @ [(r, [(m, g m)])] \<rparr>"
  have first: "toObject obj (r, m, g m) = ?obj"
    using assms(1,2) by (rule toObject_new)
  have rest: "foldl (\<lambda>entry m. obj_set m (g m) entry) [(m, g m)] ms' =
      [(m, g m)] @ map (\<lambda>m. (m, g m)) ms'"
    using assms(3) Cons by (intro fold_obj_set_fresh) auto
  have "foldl toObject ?obj (map (\<lambda>m. (r, m, g m)) ms') =
      ?obj \<lparr> own := own obj @ [(r, foldl (\<lambda>entry m. obj_set m (g m) entry) [(m, g m)] ms')] \<rparr>"
    using assms(1) by (intro fold_toObject_entry) simp_all
  then show ?thesis
    by (simp add: Cons first rest)
qed

lemma fold_toObject_inherited:
  "r \<notin> fst ` set (own obj) \<Longrightarrow> r \<in> set (inherited obj) \<Longrightarrow> r \<noteq> ''__proto__'' \<Longrightarrow>
   foldl toObject obj (map (\<lambda>m. (r, m, g m)) ms) = obj"
  by (induction ms) (simp_all add: toObject_inherited)

lemma fold_toObject_resources:
  assumes "distinct ms" "ms \<noteq> []"
  shows "distinct rs \<Longrightarrow> set rs \<inter> fst ` set (own obj) = {} \<Longrightarrow> ''__proto__'' \<notin> set rs \<Longrightarrow>
   foldl toObject obj (concat (map (\<lambda>r. map (\<lambda>m. (r, m, g r m)) ms) rs)) =
     obj \<lparr> own := own obj @ map (\<lambda>r. (r, map (\<lambda>m. (m, g r m)) ms))
                             (filter (\<lambda>r. r \<notin> set (inherited obj)) rs) \<rparr>"
proof (induction rs arbitrary: obj)
  case Nil
  show ?case by simp
next
  case (Cons r rs)
  have fresh: "r \<notin> fst ` set (own obj)"
    using Cons.prems(2) by auto
  show ?case
  proof (cases "r \<in> set (inherited obj)")
    case True
    have "foldl toObject obj (map (\<lambda>m. (r, m, g r m)) ms) = obj"
      using fresh True Cons.prems(3) by (intro fold_toObject_inherited) auto
    moreover have "set rs \<inter> fst ` set (own obj) = {}"
      using Cons.prems(2) by auto
    ultimately show ?thesis
      using Cons.IH [of obj] Cons.prems(1,3) True by simp
  next
    case False
    let ?obj = "obj \<lparr> own := own obj @ [(r, map (\<lambda>m. (m, g r m)) ms)] \<rparr>"
    have block: "foldl toObject obj (map (\<lambda>m. (r, m, g r m)) ms) = ?obj"
      using fresh False assms by (rule fold_toObject_new)
    have "set rs \<inter> fst ` set (own ?obj) = {}"
      using Cons.prems by auto
    then have "foldl toObject ?obj (concat (map (\<lambda>r. map (\<lambda>m. (r, m, g r m)) ms) rs)) =
        ?obj \<lparr> own := own ?obj @ map (\<lambda>r. (r, map (\<lambda>m. (m, g r m)) ms))
                                   (filter (\<lambda>r. r \<notin> set (inherited ?obj)) rs) \<rparr>"
      using Cons.prems(1,3) by (intro Cons.IH) simp_all
    then show ?thesis
      using False by (simp add: block)
  qed
qed

lemma triples_concat:
  "map (\<lambda>(r, m). (r, m, g r m)) (crossProduct rs ms) =
     concat (map (\<lambda>r. map (\<lambda>m. (r, m, g r m)) ms) rs)"
  by (simp add: crossProduct_def map_concat comp_def)

lemma object_keys_methods:
  "object_keys methods = [''create'', ''read'', ''get'', ''update'', ''delete'']"
  by (simp add: object_keys_def methods_def)

text \<open>
  The API object of a resource map with distinct keys, none of them \<^verbatim>\<open>__proto__\<close>: one
  entry, with the five operations in the order of the table, for each resource name that
  \<^verbatim>\<open>Object.prototype\<close> does not define.
\<close>

lemma apiFactory_eq:
  assumes "distinct (object_keys stateMap)" "''__proto__'' \<notin> set (object_keys stateMap)"
  shows "apiFactory w baseURL stateMap dispatch =
     \<lparr> own =
         map (\<lambda>r. (r, map (\<lambda>m. (m, requestFactory w baseURL (fromStateMap w stateMap) dispatch r
                                      (get_prop (JObj methods) m)))
                         [''create'', ''read'', ''get'', ''update'', ''delete'']))
           (filter (\<lambda>r. r \<notin> set object_prototype_keys) (object_keys stateMap)),
       inherited = object_prototype_keys \<rparr>"
proof -
  have "distinct (object_keys methods)" "object_keys methods \<noteq> []"
    by (simp_all add: object_keys_methods)
  from fold_toObject_resources [OF this assms(1) _ assms(2), of empty_object]
  show ?thesis
    unfolding apiFactory_def Let_def triples_concat
    by (simp add: object_keys_methods empty_object_def)
qed

subsection \<open>The table and the id of a request\<close>

lemma map_of_methods:
  "map_of methods ''create'' = Some (JStr ''post'')"
  "map_of methods ''read'' = Some (JStr ''get'')"
  "map_of methods ''get'' = Some (JStr ''get'')"
  "map_of methods ''update'' = Some (JStr ''patch'')"
  "map_of methods ''delete'' = Some (JStr ''delete'')"
  by (simp_all add: methods_def)

lemma lacks_id:
  "opt_prop JUndefined ''id'' = JUndefined"
  "opt_prop JNull ''id'' = JUndefined"
  "''id'' \<notin> fst ` set ps \<Longrightarrow> opt_prop (JObj ps) ''id'' = JUndefined"
  "opt_prop (JObj ((''id'', JUndefined) # ps)) ''id'' = JUndefined"
  by (simp_all add: opt_prop_def map_of_eq_None_iff [THEN iffD2])

subsection \<open>Runs of a request function\<close>

lemma commit_events:
  "\<exists>rest. events (commit w actions dispatch resourceName sofar res) = sofar @ rest"
  by (simp add: commit_def Let_def split: option.split)

lemma map_sum_not_thrown: "map_sum Rejected f x \<noteq> Inl (Thrown message)"
  by (cases x) simp_all

lemma commit_not_thrown:
  "settled (commit w actions dispatch resourceName sofar res) \<noteq> Inl (Thrown message)"
  by (simp add: commit_def Let_def map_sum_not_thrown split: option.split)

lemma requestFactory_thrown:
  "prepare w baseURL resourceName method data = Inl message \<Longrightarrow>
   requestFactory w baseURL actions dispatch resourceName method data userOptions =
     \<lparr> events = [], settled = Inl (Thrown message) \<rparr>"
  by (simp add: requestFactory_def)

lemma requestFactory_rejected:
  "prepare w baseURL resourceName method data = Inr req \<Longrightarrow> fetch w req = Inl reason \<Longrightarrow>
   requestFactory w baseURL actions dispatch resourceName method data userOptions =
     \<lparr> events = [Fetch req], settled = Inl (Rejected reason) \<rparr>"
  by (simp add: requestFactory_def)

lemma requestFactory_dispatches:
  assumes "prepare w baseURL resourceName method data = Inr req" "fetch w req = Inr response"
  shows "take 2 (events (requestFactory w baseURL actions dispatch resourceName method data
                           userOptions)) =
     [Fetch req,
      Dispatch (RequestAction (toUpperCase (js_toString method @ ''_'' @ resourceName))
                  (ResponseJson response))]"
proof -
  let ?a = "RequestAction (toUpperCase (js_toString method @ ''_'' @ resourceName))
              (ResponseJson response)"
  show ?thesis
  proof (cases "dispatch ?a")
    case (Inl reason)
    with assms show ?thesis by (simp add: requestFactory_def)
  next
    case (Inr res)
    obtain rest where
      "events (commit w actions dispatch resourceName [Fetch req, Dispatch ?a] res) =
         [Fetch req, Dispatch ?a] @ rest"
      using commit_events by blast
    with assms Inr show ?thesis by (simp add: requestFactory_def)
  qed
qed

lemma requestFactory_fetches:
  assumes "prepare w baseURL resourceName method data = Inr req"
  shows "take 1 (events (requestFactory w baseURL actions dispatch resourceName method data
                           userOptions)) = [Fetch req]"
proof (cases "fetch w req")
  case (Inl reason)
  with assms show ?thesis by (simp add: requestFactory_def)
next
  case (Inr response)
  have "take 1 (take 2 (events (requestFactory w baseURL actions dispatch resourceName method
                                  data userOptions))) = [Fetch req]"
    unfolding requestFactory_dispatches [OF assms Inr] by simp
  then show ?thesis by simp
qed

lemma requestFactory_thrown_iff:
  "settled (requestFactory w baseURL actions dispatch resourceName method data userOptions) =
       Inl (Thrown message)
     \<longleftrightarrow> prepare w baseURL resourceName method data = Inl message"
  by (simp add: requestFactory_def Let_def commit_not_thrown split: sum.split)



lemma prepare_no_body:
  "prepare w baseURL resourceName method data = Inr req \<Longrightarrow> req_body req = None"
  by (auto simp: prepare_eq split: if_splits)

lemma commit_run:
  assumes "res \<noteq> JUndefined" "res \<noteq> JNull"
    and "actions (camelCase w (''update_'' @ resourceName)) = Some creator"
  shows "commit w actions dispatch resourceName sofar res =
     \<lparr> events = sofar @ [Dispatch (UpdateAction (creator
          (case get_prop res ''value'' of JArr xs \<Rightarrow> keyBy xs ''id''
           | _ \<Rightarrow> get_prop res ''value'')))],
       settled = map_sum Rejected id (dispatch (UpdateAction (creator
          (case get_prop res ''value'' of JArr xs \<Rightarrow> keyBy xs ''id''
           | _ \<Rightarrow> get_prop res ''value'')))) \<rparr>"
  using assms by (simp add: commit_def Let_def)

lemma keyBy_id:
  "\<exists>ps. keyBy xs k = JObj ps \<and> distinct (map fst ps) \<and>
     (\<forall>key. map_of ps key = List.find (\<lambda>x. js_toString (opt_prop x k) = key) (rev xs)) \<and>
     (distinct (map (\<lambda>x. js_toString (opt_prop x k)) xs) \<longrightarrow>
        ps = map (\<lambda>x. (js_toString (opt_prop x k), x)) xs)"
proof -
  let ?key = "\<lambda>x. js_toString (opt_prop x k)"
  let ?ps = "foldl (\<lambda>result x. obj_set (?key x) x result) [] xs"
  have "keyBy xs k = JObj ?ps"
    by (simp add: keyBy_def)
  moreover have "distinct (map fst ?ps)"
    by (rule keyBy_fold_distinct) simp
  moreover have "map_of ?ps key = List.find (\<lambda>x. ?key x = key) (rev xs)" for key
    using keyBy_fold_map_of [of ?key "[]" xs key] by (simp split: option.split)
  moreover have "?ps = map (\<lambda>x. (?key x, x)) xs" if "distinct (map ?key xs)"
    using fold_obj_set_fresh [of ?key xs "[]" "\<lambda>x. x"] that by simp
  ultimately show ?thesis by blast
qed

subsection \<open>Where the entries of the API object come from\<close>




section \<open>The request body\<close>

text \<open>
  Claim C1: every request whose verb is not GET (create, update, delete) carries a body equal
  to the JSON serialization of \<^verbatim>\<open>data\<close>, and a GET request carries none. The guard of
  line 80 never holds (\<^verbatim>\<open>prepare_no_body\<close>: no request has a body, whatever the method),
  so the second half holds and the first fails. The request that \<^verbatim>\<open>api.book.create\<close> issues
  for \<^verbatim>\<open>{ title: "X" }\<close>, under any surroundings, is the one below: it has no body, where
  the claim has \<^verbatim>\<open>JSON.stringify(data)\<close>.
\<close>

theorem create_request_has_no_body:
  "take 1 (events (requestFactory w baseURL actions dispatch ''book''
                     (get_prop (JObj methods) ''create'') (JObj [(''title'', JStr ''X'')])
                     userOptions)) =
     [Fetch \<lparr> req_url = baseURL @ ''/book/'', req_method = JStr ''post'',
              req_Authorization = ''Bearer '' @ js_toString (authToken w),
              req_json = True, req_body = None \<rparr>]"
proof -
  have "prepare w baseURL ''book'' (get_prop (JObj methods) ''create'')
      (JObj [(''title'', JStr ''X'')]) =
    Inr \<lparr> req_url = baseURL @ ''/book/'', req_method = JStr ''post'',
          req_Authorization = ''Bearer '' @ js_toString (authToken w),
          req_json = True, req_body = None \<rparr>"
    by (simp add: prepare_eq map_of_methods opt_prop_def)
  then show ?thesis by (rule requestFactory_fetches)
qed

section \<open>Validation of the id\<close>

text \<open>
  The create, update and delete functions of a resource are, by \<^verbatim>\<open>api_entry\<close>, the
  request functions \<^verbatim>\<open>requestFactory\<close> makes for the resource and \<^verbatim>\<open>methods.create\<close>,
  \<^verbatim>\<open>methods.update\<close> and \<^verbatim>\<open>methods.delete\<close>.
\<close>

text \<open>
  Claim C2, amended: for every resource, calling the produced create function with a
  \<^verbatim>\<open>data\<close> object that has a truthy \<^verbatim>\<open>id\<close> returns a promise that is rejected with the
  string saying that id creation is the responsibility of the backend, and no network
  request is issued: the run of the promise has no effect at all.
\<close>

theorem create_with_truthy_id:
  assumes "truthy (opt_prop data ''id'')"
  shows "async_call (requestFactory w baseURL actions dispatch resourceName
                       (get_prop (JObj methods) ''create'')) data userOptions =
           Returns \<lparr> events = [], settled = Inl (Thrown post_with_id_message) \<rparr> \<and>
         post_with_id_message =
           ''can'' @ [CHR 0x27] @
           ''t post with an id. Id creation is the responsibility of the backend''"
proof -
  have "prepare w baseURL resourceName (get_prop (JObj methods) ''create'') data =
      Inl post_with_id_message"
    using assms by (simp add: prepare_eq map_of_methods)
  from requestFactory_thrown [OF this] show ?thesis
    by (simp add: async_call_def post_with_id_message_def)
qed

theorem create_with_truthy_id_witness:
  "truthy (opt_prop (JObj [(''id'', JNum 7), (''title'', JStr ''X'')]) ''id'') \<and>
   async_call (requestFactory mock_world ''http://api'' (fromStateMap mock_world book_map)
                 mock_dispatch ''book'' (get_prop (JObj methods) ''create''))
       (JObj [(''id'', JNum 7), (''title'', JStr ''X'')]) JUndefined =
     Returns \<lparr> events = [], settled = Inl (Thrown post_with_id_message) \<rparr>"
proof -
  have t: "truthy (opt_prop (JObj [(''id'', JNum 7), (''title'', JStr ''X'')]) ''id'')"
    by (simp add: opt_prop_def)
  show ?thesis
    using create_with_truthy_id [OF t, of mock_world "''http://api''"
        "fromStateMap mock_world book_map" mock_dispatch "''book''" JUndefined] t
    by simp
qed

text \<open>
  Claim C2 as stated has the call throw synchronously. The call of
  \<^verbatim>\<open>api.book.create({ id: 7, title: "X" })\<close> does not throw: it returns, and what it
  returns is the rejected promise.
\<close>

theorem create_returns_rejected_promise_counterexample:
  "async_call (requestFactory mock_world ''http://api'' (fromStateMap mock_world book_map)
                 mock_dispatch ''book'' (get_prop (JObj methods) ''create''))
       (JObj [(''id'', JNum 7), (''title'', JStr ''X'')]) JUndefined =
     Returns \<lparr> events = [], settled = Inl (Thrown post_with_id_message) \<rparr> \<and>
   async_call (requestFactory mock_world ''http://api'' (fromStateMap mock_world book_map)
                 mock_dispatch ''book'' (get_prop (JObj methods) ''create''))
       (JObj [(''id'', JNum 7), (''title'', JStr ''X'')]) JUndefined \<noteq>
     Throws post_with_id_message"
  by (simp add: async_call_def requestFactory_def prepare_eq map_of_methods opt_prop_def)

text \<open>
  The amended claim says nothing of an \<^verbatim>\<open>id\<close> that is present but falsy. There line 63,
  which tests the truthiness of the id where line 66 tests its presence, lets the call
  through: with \<^verbatim>\<open>{ id: 0 }\<close> it goes to the network and on to the store.
\<close>

lemma create_with_id_zero_is_fetched:
  "map_of [(''id'', JNum 0)] ''id'' = Some (JNum 0) \<and>
   requestFactory mock_world ''http://api'' (fromStateMap mock_world book_map) mock_dispatch ''book''
       (get_prop (JObj methods) ''create'') (JObj [(''id'', JNum 0)]) JUndefined =
     \<lparr> events =
         [Fetch \<lparr> req_url = ''http://api/book/'', req_method = JStr ''post'',
                  req_Authorization = ''Bearer t0ken'', req_json = True, req_body = None \<rparr>,
          Dispatch (RequestAction ''POST_BOOK'' (ResponseJson (JArr [book1, book2]))),
          Dispatch (UpdateAction (JObj [(''type'', JStr ''UPDATE_BOOK''),
                                        (''payload'', JObj [(''1'', book1), (''2'', book2)])]))],
       settled = Inr (JObj [(''type'', JStr ''UPDATE_BOOK''),
                            (''payload'', JObj [(''1'', book1), (''2'', book2)])]) \<rparr>"
  by (simp add: requestFactory_def prepare_eq map_of_methods opt_prop_def mock_world_def
      mock_fetch_def mock_dispatch_def commit_def Let_def keyBy_def book1_def book2_def book_map_def
      object_keys_def toUpperCase_def upper_char_def digit_string.simps digit_char_def)

text \<open>
  Claim C3, amended: for every resource, calling the produced update or delete function with
  a \<^verbatim>\<open>data\<close> that has no \<^verbatim>\<open>id\<close> (\<^verbatim>\<open>data?.id\<close> is \<^verbatim>\<open>undefined\<close>; \<^verbatim>\<open>lacks_id\<close> lists
  the ways) returns a promise that is rejected with the missing-id string, which names the
  resource and the method, and no network request is issued: the run of the promise has no
  effect at all.
\<close>

theorem update_delete_without_id:
  assumes "operation = ''update'' \<or> operation = ''delete''"
    and "opt_prop data ''id'' = JUndefined"
  shows "async_call (requestFactory w baseURL actions dispatch resourceName
                       (get_prop (JObj methods) operation)) data userOptions =
           Returns \<lparr> events = [],
                     settled = Inl (Thrown (missing_id_message resourceName
                                              (get_prop (JObj methods) operation))) \<rparr> \<and>
         missing_id_message resourceName (get_prop (JObj methods) operation) =
           ''missing id in call:'' @ [CHR 0x0A] @ ''       resource: '' @ resourceName @
           [CHR 0x0A] @ ''       method: '' @
           (if operation = ''update'' then ''patch'' else ''delete'')"
proof -
  let ?m = "get_prop (JObj methods) operation"
  have verb: "?m = JStr ''patch'' \<or> ?m = JStr ''delete''"
    using assms(1) by (auto simp: map_of_methods)
  then have thrown:
    "prepare w baseURL resourceName ?m data = Inl (missing_id_message resourceName ?m)"
    using assms(2) by (auto simp: prepare_eq)
  have "missing_id_message resourceName ?m =
      ''missing id in call:'' @ [CHR 0x0A] @ ''       resource: '' @ resourceName @
      [CHR 0x0A] @ ''       method: '' @
      (if operation = ''update'' then ''patch'' else ''delete'')"
    using assms(1) by (auto simp: missing_id_message_def map_of_methods)
  with requestFactory_thrown [OF thrown] show ?thesis
    by (simp add: async_call_def)
qed

theorem update_delete_without_id_witness:
  "opt_prop (JObj [(''title'', JStr ''X'')]) ''id'' = JUndefined \<and>
   async_call (requestFactory mock_world ''http://api'' (fromStateMap mock_world book_map)
                 mock_dispatch ''book'' (get_prop (JObj methods) ''delete''))
       (JObj [(''title'', JStr ''X'')]) JUndefined =
     Returns \<lparr> events = [],
               settled = Inl (Thrown (''missing id in call:'' @ [CHR 0x0A] @
                                        ''       resource: book'' @ [CHR 0x0A] @
                                        ''       method: delete'')) \<rparr>"
proof -
  have none: "opt_prop (JObj [(''title'', JStr ''X'')]) ''id'' = JUndefined"
    by (simp add: opt_prop_def)
  show ?thesis
    using update_delete_without_id [of "''delete''" "JObj [(''title'', JStr ''X'')]" mock_world
        "''http://api''" "fromStateMap mock_world book_map" mock_dispatch "''book''" JUndefined]
      none
    by simp
qed

text \<open>
  Claim C3 as stated has the call throw synchronously. The call of
  \<^verbatim>\<open>api.book.update({ title: "X" })\<close> does not throw: it returns, and what it returns is
  the rejected promise.
\<close>

theorem update_returns_rejected_promise_counterexample:
  "async_call (requestFactory mock_world ''http://api'' (fromStateMap mock_world book_map)
                 mock_dispatch ''book'' (get_prop (JObj methods) ''update''))
       (JObj [(''title'', JStr ''X'')]) JUndefined =
     Returns \<lparr> events = [],
               settled = Inl (Thrown (missing_id_message ''book'' (JStr ''patch''))) \<rparr> \<and>
   async_call (requestFactory mock_world ''http://api'' (fromStateMap mock_world book_map)
                 mock_dispatch ''book'' (get_prop (JObj methods) ''update''))
       (JObj [(''title'', JStr ''X'')]) JUndefined \<noteq>
     Throws (missing_id_message ''book'' (JStr ''patch''))"
  by (simp add: async_call_def requestFactory_def prepare_eq map_of_methods opt_prop_def)

text \<open>
  Claim C9: for every resource, the create function throws exactly when the \<^verbatim>\<open>id\<close> read
  from \<^verbatim>\<open>data\<close> is truthy; with an \<^verbatim>\<open>id\<close> that is present but falsy (\<^verbatim>\<open>0\<close>, the empty
  string) it does not throw, and the first thing the call does is the network request.
\<close>

theorem create_with_falsy_id:
  "((\<exists>message. prepare w baseURL resourceName (get_prop (JObj methods) ''create'') data = Inl message)
      \<longleftrightarrow> truthy (opt_prop data ''id'')) \<and>
   (\<not> truthy (opt_prop data ''id'') \<longrightarrow>
      take 1 (events (requestFactory w baseURL actions dispatch resourceName
                        (get_prop (JObj methods) ''create'') data userOptions)) =
        [Fetch \<lparr> req_url = baseURL @ ''/'' @ resourceName @ ''/'',
                 req_method = JStr ''post'',
                 req_Authorization = ''Bearer '' @ js_toString (authToken w),
                 req_json = True, req_body = None \<rparr>])"
proof -
  let ?req = "\<lparr> req_url = baseURL @ ''/'' @ resourceName @ ''/'', req_method = JStr ''post'',
                req_Authorization = ''Bearer '' @ js_toString (authToken w),
                req_json = True, req_body = None \<rparr>"
  have iff: "(\<exists>message. prepare w baseURL resourceName (get_prop (JObj methods) ''create'') data = Inl message)
      \<longleftrightarrow> truthy (opt_prop data ''id'')"
    by (simp add: prepare_eq map_of_methods)
  have "prepare w baseURL resourceName (get_prop (JObj methods) ''create'') data = Inr ?req"
    if "\<not> truthy (opt_prop data ''id'')"
    using that by (simp add: prepare_eq map_of_methods)
  from requestFactory_fetches [OF this] iff show ?thesis by simp
qed

theorem create_with_falsy_id_witness:
  "\<not> truthy (opt_prop (JObj [(''id'', JNum 0)]) ''id'') \<and>
   \<not> truthy (opt_prop (JObj [(''id'', JStr [])]) ''id'') \<and>
   take 1 (events (requestFactory mock_world ''http://api'' (fromStateMap mock_world book_map)
                     mock_dispatch ''book'' (get_prop (JObj methods) ''create'')
                     (JObj [(''id'', JNum 0)]) JUndefined)) =
     [Fetch \<lparr> req_url = ''http://api/book/'', req_method = JStr ''post'',
              req_Authorization = ''Bearer t0ken'', req_json = True, req_body = None \<rparr>]"
  using create_with_falsy_id [of mock_world "''http://api''" "''book''" "JObj [(''id'', JNum 0)]"
      "fromStateMap mock_world book_map" mock_dispatch JUndefined]
  by (simp add: opt_prop_def mock_world_def)

text \<open>
  Claim C10: for update and delete, the call throws exactly when \<^verbatim>\<open>data?.id\<close> is
  \<^verbatim>\<open>undefined\<close> (no \<^verbatim>\<open>data\<close>, no \<^verbatim>\<open>id\<close> key, or an \<^verbatim>\<open>id\<close> that is \<^verbatim>\<open>undefined\<close>); with
  \<^verbatim>\<open>null\<close> or another falsy \<^verbatim>\<open>id\<close> that is not \<^verbatim>\<open>undefined\<close> the call passes validation
  and goes to the network, the last segment of the URL being empty.
\<close>

theorem missing_id_exactly_undefined:
  assumes "operation = ''update'' \<or> operation = ''delete''"
  shows
   "((\<exists>message. settled (requestFactory w baseURL actions dispatch resourceName
                            (get_prop (JObj methods) operation) data userOptions) =
                  Inl (Thrown message))
       \<longleftrightarrow> opt_prop data ''id'' = JUndefined) \<and>
    opt_prop JUndefined ''id'' = JUndefined \<and>
    opt_prop (JObj []) ''id'' = JUndefined \<and>
    opt_prop (JObj [(''id'', JUndefined)]) ''id'' = JUndefined \<and>
    (opt_prop data ''id'' \<noteq> JUndefined \<and> \<not> truthy (opt_prop data ''id'') \<longrightarrow>
       take 1 (events (requestFactory w baseURL actions dispatch resourceName
                         (get_prop (JObj methods) operation) data userOptions)) =
         [Fetch \<lparr> req_url = baseURL @ ''/'' @ resourceName @ ''/'',
                  req_method = get_prop (JObj methods) operation,
                  req_Authorization = ''Bearer '' @ js_toString (authToken w),
                  req_json = True, req_body = None \<rparr>])"
proof -
  let ?m = "get_prop (JObj methods) operation"
  let ?req = "\<lparr> req_url = baseURL @ ''/'' @ resourceName @ ''/'', req_method = ?m,
                req_Authorization = ''Bearer '' @ js_toString (authToken w),
                req_json = True, req_body = None \<rparr>"
  have verb: "?m = JStr ''patch'' \<or> ?m = JStr ''delete''"
    using assms by (auto simp: map_of_methods)
  then have "(\<exists>message. prepare w baseURL resourceName ?m data = Inl message)
      \<longleftrightarrow> opt_prop data ''id'' = JUndefined"
    by (auto simp: prepare_eq)
  then have iff: "(\<exists>message. settled (requestFactory w baseURL actions dispatch resourceName ?m
                     data userOptions) = Inl (Thrown message))
      \<longleftrightarrow> opt_prop data ''id'' = JUndefined"
    by (simp add: requestFactory_thrown_iff)
  have "prepare w baseURL resourceName ?m data = Inr ?req"
    if "opt_prop data ''id'' \<noteq> JUndefined" "\<not> truthy (opt_prop data ''id'')"
    using that verb by (auto simp: prepare_eq)
  from requestFactory_fetches [OF this] iff show ?thesis
    by (simp add: opt_prop_def)
qed

theorem missing_id_exactly_undefined_witness:
  "opt_prop (JObj [(''id'', JNull)]) ''id'' \<noteq> JUndefined \<and>
   \<not> truthy (opt_prop (JObj [(''id'', JNull)]) ''id'') \<and>
   take 1 (events (requestFactory mock_world ''http://api'' (fromStateMap mock_world book_map)
                     mock_dispatch ''book'' (get_prop (JObj methods) ''delete'')
                     (JObj [(''id'', JNull)]) JUndefined)) =
     [Fetch \<lparr> req_url = ''http://api/book/'', req_method = JStr ''delete'',
              req_Authorization = ''Bearer t0ken'', req_json = True, req_body = None \<rparr>] \<and>
   (\<exists>message. settled (requestFactory mock_world ''http://api'' (fromStateMap mock_world book_map)
                         mock_dispatch ''book'' (get_prop (JObj methods) ''delete'')
                         (JObj [(''title'', JStr ''X'')]) JUndefined) = Inl (Thrown message))"
  using missing_id_exactly_undefined [of "''delete''" mock_world "''http://api''"
      "fromStateMap mock_world book_map" mock_dispatch "''book''" "JObj [(''id'', JNull)]" JUndefined]
    missing_id_exactly_undefined [of "''delete''" mock_world "''http://api''"
      "fromStateMap mock_world book_map" mock_dispatch "''book''" "JObj [(''title'', JStr ''X'')]" JUndefined]
  by (simp add: opt_prop_def mock_world_def map_of_methods)

section \<open>The URL\<close>




text \<open>
  The amended claim says nothing of an id that is present but falsy. There
  \<^verbatim>\<open>id || ""\<close> of line 71 drops the id, against the comment of lines 36 to 38 (the id
  will be appended to the url): with \<^verbatim>\<open>{ id: 0 }\<close> the request goes to
  \<^verbatim>\<open>http://api/book/\<close>, not to \<^verbatim>\<open>http://api/book/0\<close>.
\<close>

lemma get_with_id_zero_url:
  "map_of [(''id'', JNum 0)] ''id'' = Some (JNum 0) \<and>
   prepare mock_world ''http://api'' ''book'' (get_prop (JObj methods) ''get'')
       (JObj [(''id'', JNum 0)]) =
     Inr \<lparr> req_url = ''http://api/book/'', req_method = JStr ''get'',
           req_Authorization = ''Bearer t0ken'', req_json = True, req_body = None \<rparr> \<and>
   ''http://api/book/'' \<noteq> join_strs ''/'' [''http://api'', ''book'', js_toString (JNum 0)]"
  by (simp add: prepare_eq map_of_methods opt_prop_def mock_world_def digit_string.simps
      digit_char_def)

section \<open>The two dispatches\<close>

text \<open>
  Claim C7, amended: a call that passes validation first awaits \<^verbatim>\<open>fetch\<close>. When
  \<^verbatim>\<open>fetch\<close> answers with a response, the call then dispatches the request-tracking action
  whose type is the verb, an underscore and the resource name, in upper case, and whose
  payload is the pending promise of the response's parsed body. When \<^verbatim>\<open>fetch\<close> fails, the
  call is rejected with its reason and dispatches nothing.
\<close>

theorem request_tracking_dispatch:
  assumes "prepare w baseURL resourceName method data = Inr req"
  shows "(\<forall>response. fetch w req = Inr response \<longrightarrow>
            take 2 (events (requestFactory w baseURL actions dispatch resourceName method data
                              userOptions)) =
              [Fetch req,
               Dispatch (RequestAction
                           (toUpperCase (js_toString method) @ ''_'' @ toUpperCase resourceName)
                           (ResponseJson response))]) \<and>
         (\<forall>reason. fetch w req = Inl reason \<longrightarrow>
            requestFactory w baseURL actions dispatch resourceName method data userOptions =
              \<lparr> events = [Fetch req], settled = Inl (Rejected reason) \<rparr>)"
  using requestFactory_dispatches [OF assms] requestFactory_rejected [OF assms]
  by (simp add: toUpperCase_def upper_char_def)

theorem request_tracking_dispatch_witness:
  "take 2 (events (requestFactory mock_world ''http://api'' (fromStateMap mock_world book_map)
                     mock_dispatch ''book'' (get_prop (JObj methods) ''delete'')
                     (JObj [(''id'', JNum 5)]) JUndefined)) =
     [Fetch \<lparr> req_url = ''http://api/book/5'', req_method = JStr ''delete'',
              req_Authorization = ''Bearer t0ken'', req_json = True, req_body = None \<rparr>,
      Dispatch (RequestAction ''DELETE_BOOK'' (ResponseJson book5))]"
proof -
  let ?req = "\<lparr> req_url = ''http://api/book/5'', req_method = JStr ''delete'',
                req_Authorization = ''Bearer t0ken'', req_json = True, req_body = None \<rparr>"
  have p: "prepare mock_world ''http://api'' ''book'' (get_prop (JObj methods) ''delete'')
      (JObj [(''id'', JNum 5)]) = Inr ?req"
    by (simp add: prepare_eq map_of_methods opt_prop_def mock_world_def digit_string.simps
        digit_char_def)
  have f: "fetch mock_world ?req = Inr book5"
    by (simp add: mock_world_def mock_fetch_def)
  show ?thesis
    using request_tracking_dispatch [OF p, of "fromStateMap mock_world book_map" mock_dispatch
        JUndefined] f
    by (simp add: map_of_methods toUpperCase_def upper_char_def)
qed

text \<open>
  Claim C7 as stated has every call dispatch the request-tracking action before the result
  of the network call is known. With the host down, the call has fetched and is rejected,
  and there is no dispatch.
\<close>

theorem failed_fetch_counterexample:
  "requestFactory mock_world ''http://down'' (fromStateMap mock_world book_map) mock_dispatch
       ''book'' (get_prop (JObj methods) ''read'') JUndefined JUndefined =
     \<lparr> events =
         [Fetch \<lparr> req_url = ''http://down/book/'', req_method = JStr ''get'',
                  req_Authorization = ''Bearer t0ken'', req_json = True, req_body = None \<rparr>],
       settled = Inl (Rejected (JStr ''Failed to fetch'')) \<rparr>"
  by (simp add: requestFactory_def prepare_eq map_of_methods opt_prop_def mock_world_def
      mock_fetch_def)

text \<open>
  Claim C4: when the first dispatch resolves to \<^verbatim>\<open>{ value }\<close> and the resource has an
  update-action creator, the creator is applied to the committed value and the result is
  dispatched. An array is committed as the object that has, under the string of each
  element's \<^verbatim>\<open>id\<close>, the last element with that id: the list of the elements under their
  ids when the ids differ. A value that is not an array is committed unchanged.
\<close>

theorem committed_value:
  assumes "prepare w baseURL resourceName method data = Inr req"
    and "fetch w req = Inr response"
    and "dispatch (RequestAction (toUpperCase (js_toString method @ ''_'' @ resourceName))
                     (ResponseJson response)) = Inr res"
    and "res \<noteq> JUndefined" and "res \<noteq> JNull"
    and "actions (camelCase w (''update_'' @ resourceName)) = Some creator"
  shows "\<exists>committed.
      events (requestFactory w baseURL actions dispatch resourceName method data userOptions) =
        [Fetch req,
         Dispatch (RequestAction (toUpperCase (js_toString method @ ''_'' @ resourceName))
                     (ResponseJson response)),
         Dispatch (UpdateAction (creator committed))] \<and>
      (\<not> isArray (get_prop res ''value'') \<longrightarrow> committed = get_prop res ''value'') \<and>
      (\<forall>xs. get_prop res ''value'' = JArr xs \<longrightarrow>
         (\<exists>ps. committed = JObj ps \<and> distinct (map fst ps) \<and>
            (\<forall>key. map_of ps key =
                     List.find (\<lambda>x. js_toString (opt_prop x ''id'') = key) (rev xs)) \<and>
            (distinct (map (\<lambda>x. js_toString (opt_prop x ''id'')) xs) \<longrightarrow>
               ps = map (\<lambda>x. (js_toString (opt_prop x ''id''), x)) xs)))"
proof -
  let ?val = "get_prop res ''value''"
  let ?committed = "case ?val of JArr xs \<Rightarrow> keyBy xs ''id'' | _ \<Rightarrow> ?val"
  have run: "events (requestFactory w baseURL actions dispatch resourceName method data userOptions) =
        [Fetch req,
         Dispatch (RequestAction (toUpperCase (js_toString method @ ''_'' @ resourceName))
                     (ResponseJson response)),
         Dispatch (UpdateAction (creator ?committed))]"
    using assms(1-3)
      commit_run [of res actions w resourceName creator dispatch, OF assms(4-6)]
    by (simp add: requestFactory_def)
  have other: "?committed = ?val" if "\<not> isArray ?val"
    using that by (cases ?val) simp_all
  have array: "\<exists>ps. ?committed = JObj ps \<and> distinct (map fst ps) \<and>
            (\<forall>key. map_of ps key =
                     List.find (\<lambda>x. js_toString (opt_prop x ''id'') = key) (rev xs)) \<and>
            (distinct (map (\<lambda>x. js_toString (opt_prop x ''id'')) xs) \<longrightarrow>
               ps = map (\<lambda>x. (js_toString (opt_prop x ''id''), x)) xs)"
    if "?val = JArr xs" for xs
    using keyBy_id [of xs "''id''"] that by simp
  from run other array show ?thesis by blast
qed

theorem committed_value_witness:
  "events (requestFactory mock_world ''http://api'' (fromStateMap mock_world book_map)
             mock_dispatch ''book'' (get_prop (JObj methods) ''read'') JUndefined JUndefined) =
     [Fetch \<lparr> req_url = ''http://api/book/'', req_method = JStr ''get'',
              req_Authorization = ''Bearer t0ken'', req_json = True, req_body = None \<rparr>,
      Dispatch (RequestAction ''GET_BOOK'' (ResponseJson (JArr [book1, book2]))),
      Dispatch (UpdateAction (JObj [(''type'', JStr ''UPDATE_BOOK''),
                                    (''payload'', JObj [(''1'', book1), (''2'', book2)])]))] \<and>
   events (requestFactory mock_world ''http://api'' (fromStateMap mock_world book_map)
             mock_dispatch ''book'' (get_prop (JObj methods) ''get'') (JObj [(''id'', JNum 5)])
             JUndefined) =
     [Fetch \<lparr> req_url = ''http://api/book/5'', req_method = JStr ''get'',
              req_Authorization = ''Bearer t0ken'', req_json = True, req_body = None \<rparr>,
      Dispatch (RequestAction ''GET_BOOK'' (ResponseJson book5)),
      Dispatch (UpdateAction (JObj [(''type'', JStr ''UPDATE_BOOK''), (''payload'', book5)]))]"
proof -
  let ?read = "\<lparr> req_url = ''http://api/book/'', req_method = JStr ''get'',
                 req_Authorization = ''Bearer t0ken'', req_json = True, req_body = None \<rparr>"
  let ?get = "\<lparr> req_url = ''http://api/book/5'', req_method = JStr ''get'',
                req_Authorization = ''Bearer t0ken'', req_json = True, req_body = None \<rparr>"
  let ?creator = "\<lambda>payload. JObj [(''type'', JStr ''UPDATE_BOOK''), (''payload'', payload)]"
  have creator: "fromStateMap mock_world book_map (camelCase mock_world (''update_'' @ ''book'')) =
      Some ?creator"
    by (simp add: mock_world_def book_map_def object_keys_def)
  have p1: "prepare mock_world ''http://api'' ''book'' (get_prop (JObj methods) ''read'') JUndefined =
      Inr ?read"
    by (simp add: prepare_eq map_of_methods opt_prop_def mock_world_def)
  have f1: "fetch mock_world ?read = Inr (JArr [book1, book2])"
    by (simp add: mock_world_def mock_fetch_def)
  have d1: "mock_dispatch (RequestAction
        (toUpperCase (js_toString (get_prop (JObj methods) ''read'') @ ''_'' @ ''book''))
        (ResponseJson (JArr [book1, book2]))) = Inr (JObj [(''value'', JArr [book1, book2])])"
    by (simp add: mock_dispatch_def)
  have keys: "map (\<lambda>x. (js_toString (opt_prop x ''id''), x)) [book1, book2] =
      [(''1'', book1), (''2'', book2)]"
    by (simp add: book1_def book2_def opt_prop_def digit_string.simps digit_char_def)
  from committed_value [where dispatch = mock_dispatch and userOptions = JUndefined
      and actions = "fromStateMap mock_world book_map" and creator = ?creator, OF p1 f1 d1 _ _ creator]
  have first: "events (requestFactory mock_world ''http://api'' (fromStateMap mock_world book_map)
             mock_dispatch ''book'' (get_prop (JObj methods) ''read'') JUndefined JUndefined) =
     [Fetch ?read, Dispatch (RequestAction ''GET_BOOK'' (ResponseJson (JArr [book1, book2]))),
      Dispatch (UpdateAction (?creator (JObj [(''1'', book1), (''2'', book2)])))]"
    using keys by (auto simp: map_of_methods toUpperCase_def upper_char_def)
  have p2: "prepare mock_world ''http://api'' ''book'' (get_prop (JObj methods) ''get'')
      (JObj [(''id'', JNum 5)]) = Inr ?get"
    by (simp add: prepare_eq map_of_methods opt_prop_def mock_world_def digit_string.simps
        digit_char_def)
  have f2: "fetch mock_world ?get = Inr book5"
    by (simp add: mock_world_def mock_fetch_def)
  have d2: "mock_dispatch (RequestAction
        (toUpperCase (js_toString (get_prop (JObj methods) ''get'') @ ''_'' @ ''book''))
        (ResponseJson book5)) = Inr (JObj [(''value'', book5)])"
    by (simp add: mock_dispatch_def)
  from committed_value [where dispatch = mock_dispatch and userOptions = JUndefined
      and actions = "fromStateMap mock_world book_map" and creator = ?creator, OF p2 f2 d2 _ _ creator]
  have second: "events (requestFactory mock_world ''http://api'' (fromStateMap mock_world book_map)
             mock_dispatch ''book'' (get_prop (JObj methods) ''get'') (JObj [(''id'', JNum 5)])
             JUndefined) =
     [Fetch ?get, Dispatch (RequestAction ''GET_BOOK'' (ResponseJson book5)),
      Dispatch (UpdateAction (?creator book5))]"
    by (auto simp: map_of_methods toUpperCase_def upper_char_def book5_def)
  from first second show ?thesis by simp
qed

section \<open>The API object\<close>

text \<open>
  A resource named \<^verbatim>\<open>__proto__\<close> hands the five operation names to the prototype, so that
  a later resource named like an operation finds an inherited member as well.
\<close>

lemma prototype_then_operation_name:
  "own (apiFactory w baseURL [(''__proto__'', d1), (''read'', d2)] dispatch) = []"
  by (simp add: apiFactory_def crossProduct_def object_keys_def methods_def toObject_def
      empty_object_def object_prototype_keys_def)

text \<open>
  Claim C6: the API object has exactly the keys of the resource map, and under each the
  five operations, each a request function. The claim holds of every resource name that
  \<^verbatim>\<open>obj\<close> does not inherit (\<^verbatim>\<open>apiFactory_eq\<close>) and fails for one it inherits from
  \<^verbatim>\<open>Object.prototype\<close>: for the resource map \<^verbatim>\<open>{ book, constructor }\<close>, under any
  surroundings, the API object has the key \<^verbatim>\<open>book\<close> only.
\<close>

theorem inherited_name_gets_no_entry:
  "map (\<lambda>(resource, entry). (resource, object_keys entry))
       (own (apiFactory w baseURL [(''book'', d1), (''constructor'', d2)] dispatch)) =
     [(''book'', [''create'', ''read'', ''get'', ''update'', ''delete''])]"
  by (simp add: apiFactory_eq object_keys_def object_prototype_keys_def)




end
